theory Spec2Isabelle
  imports Complex_Main "HOL-Library.Signed_Division"
begin

section \<open>The SmartRewards RPC commands (src/rpc/smartrewards.cpp)\<close>

text \<open>
  The two RPC entry points of the file, \<open>smartrewards\<close> and \<open>termrewards\<close>, are embedded
  as functions from the state of the node they read (a record \<open>env\<close>) and their arguments
  to a pair: the sequence of calls they make on the locks and on the rewards engine, and
  either the exception they throw or the JSON value they return.
\<close>

subsection \<open>JSON values and exceptions\<close>

datatype univalue =
    VNULL
  | VBOOL bool
  | VSTR string
  | VINT int
  | VREAL real
  | VARR "univalue list"
  | VOBJ "(string \<times> univalue) list"

datatype rpc_code = RPC_INVALID_PARAMETER | RPC_DATABASE_ERROR

text \<open>
  The exceptions that occur in the file: \<open>std::runtime_error\<close> (the help text, and
  \<open>get_str\<close> on a value that is no string), the two exceptions of \<open>std::stoi\<close>, and the
  JSON-RPC error object. An integer remainder by zero is undefined behaviour in C++;
  the model makes it an outcome of its own.
\<close>

datatype exception =
    runtime_error string
  | invalid_argument
  | out_of_range
  | JSONRPCError rpc_code string
  | integer_division_by_zero

definition get_str :: "univalue \<Rightarrow> exception + string" where
  "get_str v = (case v of VSTR s \<Rightarrow> Inr s
                | _ \<Rightarrow> Inl (runtime_error ''JSON value is not a string as expected''))"

text \<open>The value stored under a key of a JSON object (the first, as \<open>find_value\<close> reads it).\<close>

definition find_value :: "univalue \<Rightarrow> string \<Rightarrow> univalue option" where
  "find_value v k = (case v of VOBJ kvs \<Rightarrow> map_of kvs k | _ \<Rightarrow> None)"

subsection \<open>The data of the rewards engine\<close>

text \<open>
  Modelled from the spec: the classes below are declared in smartrewards/rewards.h, which
  the file includes and which is not among the sources. The records hold the members the
  file reads, under the names it uses, with the types of the data model of the
  specification: counts, heights, times and amounts are integers, read as mathematical
  integers, and \<open>percent\<close> is a rate. A method whose body is in the engine
  (\<open>GetPayeeCount\<close>, \<open>IsEligible\<close>, \<open>ToString\<close>, ...) is a field holding what the
  method returns.
\<close>

record CSmartAddress =
  IsValid :: bool
  ToString :: string

record CSmartRewardRound =
  number :: int
  startBlockHeight :: int
  startBlockTime :: int
  endBlockHeight :: int
  endBlockTime :: int
  eligibleEntries :: int
  eligibleSmart :: int
  disqualifiedEntries :: int
  disqualifiedSmart :: int
  nBlockPayees :: int
  nBlockInterval :: int
  rewards :: int
  percent :: real
  GetPayeeCount :: int
  GetRewardBlocks :: int
  GetLastRoundBlock :: int

record CSmartRewardEntry =
  entry_id :: CSmartAddress
  balance :: int
  balanceEligible :: int
  smartnodePaymentTx_IsNull :: bool
  fActivated :: bool
  IsEligible :: bool

record CSmartRewardResultEntry =
  entry :: CSmartRewardEntry
  reward :: int

text \<open>
  Of a term-rewards entry the file reads six members; \<open>level\<close>, \<open>percent\<close> and
  \<open>expires\<close> are passed to \<open>pushKV\<close> as they are, so the model keeps the JSON value
  each of them becomes.
\<close>

record CTermRewardEntry =
  GetAddress :: string
  txHash_GetHex :: string
  term_balance :: int
  GetLevel :: univalue
  term_percent :: univalue
  expires :: univalue

subsection \<open>The node state a command reads\<close>

text \<open>
  \<open>COIN\<close> (amount.h), the two consensus parameters and the debug flag are constants and
  globals declared outside the file; \<open>fl\<close> rounds a real number to the nearest
  \<open>double\<close>. \<open>db_lock_free\<close> and \<open>cache_lock_free\<close> say whether a \<open>TRY_LOCK\<close> on
  \<open>cs_rewardsdb\<close> and on \<open>cs_rewardscache\<close> succeeds, that is, whether no other
  thread holds the lock. The remaining fields are the answers of \<open>prewards\<close>: a method
  that returns \<open>bool\<close> and fills a reference returns \<open>None\<close> for \<open>false\<close>. The two
  maps are lists in iteration order; of the term-rewards map only the mapped values are
  read.
\<close>

record env =
  fDebug :: bool
  COIN :: int
  fl :: "real \<Rightarrow> real"
  nRewardsPayoutStartDelay :: int
  nRewardsFirst_1_3_Round :: int
  db_lock_free :: bool
  cache_lock_free :: bool
  IsSynced :: bool
  GetCurrentRound :: CSmartRewardRound
  GetRewardRounds :: "(int \<times> CSmartRewardRound) list"
  GetRewardPayouts :: "int \<Rightarrow> CSmartRewardResultEntry list option"
  GetRewardRoundResults :: "int \<Rightarrow> CSmartRewardResultEntry list option"
  Legacy :: "string \<Rightarrow> CSmartAddress"
  GetRewardEntry :: "CSmartAddress \<Rightarrow> CSmartRewardEntry option"
  GetTermRewardsEntries :: "CTermRewardEntry list option"

subsection \<open>Calls, locks and results\<close>

datatype guard = cs_rewardsdb | cs_rewardscache

datatype event =
    TryLock guard bool
  | Unlock guard
  | CallIsSynced
  | CallGetCurrentRound
  | CallGetRewardRounds
  | CallGetRewardPayouts int
  | CallGetRewardRoundResults int
  | CallGetRewardEntry CSmartAddress
  | CallGetTermRewardsEntries

type_synonym 'a rpc = "event list \<times> (exception + 'a)"

definition throw :: "exception \<Rightarrow> 'a rpc" where
  "throw e = ([], Inl e)"

definition ret :: "'a \<Rightarrow> 'a rpc" where
  "ret v = ([], Inr v)"

definition call :: "event \<Rightarrow> 'a rpc \<Rightarrow> 'a rpc" where
  "call ev k = (ev # fst k, snd k)"

text \<open>
  \<open>TRY_LOCK(cs, name)\<close> declares a scoped lock object and tries the lock once. The rest
  of the scope runs with the boolean \<open>name\<close>; when the scope is left, by \<open>return\<close> or
  by an exception, the lock is released if it was taken.
\<close>

definition TRY_LOCK :: "guard \<Rightarrow> bool \<Rightarrow> (bool \<Rightarrow> 'a rpc) \<Rightarrow> 'a rpc" where
  "TRY_LOCK cs free scope =
     (TryLock cs free # fst (scope free) @ (if free then [Unlock cs] else []),
      snd (scope free))"

subsection \<open>Amounts\<close>

text \<open>
  The lambda \<open>format\<close>, with the same text in both entry points:
  \<^verbatim>\<open>a / COIN + ( double(a % COIN) / COIN )\<close>. The quotient and the remainder are those of
  C++ (\<open>sdiv\<close> and \<open>smod\<close> truncate towards zero); each conversion to \<open>double\<close> and
  each operation on doubles rounds its exact result with \<open>fl\<close>.
\<close>

definition format :: "env \<Rightarrow> int \<Rightarrow> real" where
  "format E a =
     fl E (fl E (of_int (a sdiv COIN E))
           + fl E (fl E (of_int (a smod COIN E)) / fl E (of_int (COIN E))))"

text \<open>
  The two parts the specification names: the whole units of an amount and the minor
  units left over.
\<close>

definition integerPart :: "int \<Rightarrow> int \<Rightarrow> int" where
  "integerPart coin a = a div coin"

definition fractionalPart :: "int \<Rightarrow> int \<Rightarrow> int" where
  "fractionalPart coin a = a mod coin"

subsection \<open>Decimal numbers in strings\<close>

text \<open>\<open>%d\<close> of \<open>strprintf\<close>.\<close>

function show_nat :: "nat \<Rightarrow> string" where
  "show_nat n =
     (if n < 10 then [''0123456789'' ! n]
      else show_nat (n div 10) @ [''0123456789'' ! (n mod 10)])"
  by pat_completeness auto
termination
  by (relation "measure (\<lambda>n. n)") auto

declare show_nat.simps [simp del]

definition show_int :: "int \<Rightarrow> string" where
  "show_int i = (if i < 0 then CHR ''-'' # show_nat (nat (- i)) else show_nat (nat i))"

text \<open>
  \<open>std::stoi(str)\<close> is \<open>strtol\<close> in base 10 on the characters of \<open>str\<close>: white space
  is skipped, one sign is read, then the longest run of digits; what follows the digits is
  ignored. No digit is \<open>std::invalid_argument\<close>, a value that no \<open>int\<close> holds is
  \<open>std::out_of_range\<close>.
\<close>

definition isspace :: "char \<Rightarrow> bool" where
  "isspace c = (c \<in> set [CHR '' '', CHR 0x09, CHR 0x0A, CHR 0x0B, CHR 0x0C, CHR 0x0D])"

definition isdigit :: "char \<Rightarrow> bool" where
  "isdigit c = (c \<in> set ''0123456789'')"

definition digit_value :: "char \<Rightarrow> int" where
  "digit_value c = int (of_char c) - 48"

definition decimal :: "string \<Rightarrow> int" where
  "decimal ds = foldl (\<lambda>acc c. acc * 10 + digit_value c) 0 ds"

definition INT_MIN :: int where
  "INT_MIN = - 2147483648"

definition INT_MAX :: int where
  "INT_MAX = 2147483647"

definition stoi :: "string \<Rightarrow> exception + int" where
  "stoi str =
     (let s = dropWhile isspace str;
          negative = (s \<noteq> [] \<and> hd s = CHR ''-'');
          s' = (if s \<noteq> [] \<and> (hd s = CHR ''-'' \<or> hd s = CHR ''+'') then tl s else s);
          ds = takeWhile isdigit s'
      in if ds = [] then Inl invalid_argument
         else let v = (if negative then - decimal ds else decimal ds)
              in if v < INT_MIN \<or> INT_MAX < v then Inl out_of_range else Inr v)"

subsection \<open>The commands of \<open>smartrewards\<close>\<close>

definition busy :: exception where
  "busy = JSONRPCError RPC_DATABASE_ERROR ''Rewards database is busy..Try it again!''"

definition not_ready :: exception where
  "not_ready = JSONRPCError RPC_DATABASE_ERROR ''No active reward round available yet.''"

definition fetch_failed :: exception where
  "fetch_failed = JSONRPCError RPC_DATABASE_ERROR ''Couldn't fetch the list from the database.''"

definition smartrewards_help :: string where
  "smartrewards_help =
     ''smartrewards \"command\"...\<newline>'' @
     ''Set of commands to execute smartrewards related actions\<newline>'' @
     ''\<newline>Arguments:\<newline>'' @
     ''1. \"command\"        (string or set of strings, required) The command to execute\<newline>'' @
     ''\<newline>Available commands:\<newline>'' @
     ''  current           - Print information about the current SmartReward cycle.\<newline>'' @
     ''  history           - Print the results of all past SmartReward cycles.\<newline>'' @
     ''  payouts  :round   - Print a list of all paid rewards in the past cycle :round\<newline>'' @
     ''  snapshot :round   - Print a list of all addresses with their balances from the end of the past cycle :round.\<newline>'' @
     ''  check :address    - Check the given :address for eligibility in the current rewards cycle.\<newline>''"

text \<open>\<open>if( !fDebug && !prewards->IsSynced() ) throw ...\<close>, then the rest \<open>k\<close>.\<close>

definition check_synced :: "env \<Rightarrow> 'a rpc \<Rightarrow> 'a rpc" where
  "check_synced E k =
     (if fDebug E then k
      else call CallIsSynced
             (if \<not> IsSynced E
              then throw (JSONRPCError RPC_DATABASE_ERROR ''Rewards database is not up to date.'')
              else k))"

text \<open>Lines 58 to 83: \<open>current\<close>.\<close>

definition cmd_current :: "env \<Rightarrow> univalue rpc" where
  "cmd_current E =
     TRY_LOCK cs_rewardscache (cache_lock_free E) (\<lambda>cacheLocked.
       if \<not> cacheLocked then throw busy
       else call CallGetCurrentRound
         (let current = GetCurrentRound E in
          if number current = 0 then throw not_ready
          else ret (VOBJ
            [(''rewards_cycle'', VINT (number current)),
             (''start_blockheight'', VINT (startBlockHeight current)),
             (''start_blocktime'', VINT (startBlockTime current)),
             (''end_blockheight'', VINT (endBlockHeight current)),
             (''end_blocktime'', VINT (endBlockTime current)),
             (''eligible_addresses'', VINT (eligibleEntries current - disqualifiedEntries current)),
             (''eligible_smart'', VREAL (format E (eligibleSmart current - disqualifiedSmart current))),
             (''disqualified_addresses'', VINT (disqualifiedEntries current)),
             (''disqualified_smart'', VREAL (format E (disqualifiedSmart current))),
             (''estimated_rewards'', VREAL (format E (rewards current))),
             (''estimated_percent'', VREAL (fl E (percent current * 100)))])))"

text \<open>
  Lines 103 to 132: the object of one round of the history. The remainder by
  \<open>nBlockPayees\<close> is evaluated only when the round has payees.
\<close>

definition payObj :: "env \<Rightarrow> CSmartRewardRound \<Rightarrow> exception + univalue" where
  "payObj E r =
     (if GetPayeeCount r \<noteq> 0
      then (if nBlockPayees r = 0 then Inl integer_division_by_zero
            else Inr (VOBJ
              [(''firstBlock'', VINT (endBlockHeight r + nRewardsPayoutStartDelay E)),
               (''totalBlocks'', VINT (GetRewardBlocks r)),
               (''lastBlock'', VINT (GetLastRoundBlock r)),
               (''totalPayees'', VINT (GetPayeeCount r)),
               (''blockPayees'', VINT (nBlockPayees r)),
               (''lastBlockPayees'', VINT (GetPayeeCount r smod nBlockPayees r)),
               (''blockInterval'', VINT (nBlockInterval r))]))
      else Inr (VOBJ [(''None'', VSTR ''No payees were eligible for this round'')]))"

definition roundObj :: "env \<Rightarrow> CSmartRewardRound \<Rightarrow> exception + univalue" where
  "roundObj E r =
     (case payObj E r of
        Inl e \<Rightarrow> Inl e
      | Inr p \<Rightarrow> Inr (VOBJ
          [(''rewards_cycle'', VINT (number r)),
           (''start_blockheight'', VINT (startBlockHeight r)),
           (''start_blocktime'', VINT (startBlockTime r)),
           (''end_blockheight'', VINT (endBlockHeight r)),
           (''end_blocktime'', VINT (endBlockTime r)),
           (''eligible_addresses'',
              VINT (if eligibleEntries r - disqualifiedEntries r > 0
                    then eligibleEntries r - disqualifiedEntries r else 0)),
           (''eligible_smart'',
              VREAL (format E (if eligibleSmart r - disqualifiedSmart r > 0
                               then eligibleSmart r - disqualifiedSmart r else 0))),
           (''disqualified_addresses'', VINT (disqualifiedEntries r)),
           (''disqualified_smart'', VREAL (format E (disqualifiedSmart r))),
           (''rewards'', VREAL (format E (rewards r))),
           (''percent'', VREAL (fl E (percent r * 100))),
           (''payouts'', p)]))"

text \<open>The loop of lines 99 to 137 over the map of rounds; \<open>obj\<close> is the array built so far.\<close>

fun history_loop ::
  "env \<Rightarrow> (int \<times> CSmartRewardRound) list \<Rightarrow> univalue list \<Rightarrow> exception + univalue list" where
  "history_loop E [] obj = Inr obj"
| "history_loop E (it # rest) obj =
     (case roundObj E (snd it) of
        Inl e \<Rightarrow> Inl e
      | Inr ro \<Rightarrow> history_loop E rest (obj @ [ro]))"

text \<open>Lines 85 to 140: \<open>history\<close>.\<close>

definition cmd_history :: "env \<Rightarrow> univalue rpc" where
  "cmd_history E =
     TRY_LOCK cs_rewardscache (cache_lock_free E) (\<lambda>cacheLocked.
       if \<not> cacheLocked then throw busy
       else call CallGetRewardRounds
         (let history = GetRewardRounds E in
          if length history = 0
          then throw (JSONRPCError RPC_DATABASE_ERROR ''No finished reward round available yet.'')
          else (case history_loop E history [] of
                  Inl e \<Rightarrow> throw e
                | Inr obj \<Rightarrow> ret (VARR obj))))"

text \<open>
  Lines 142 to 188: \<open>payouts\<close>. The \<open>try\<close> block reads the round; \<open>catch (...)\<close>
  swallows every exception other than those of \<open>std::stoi\<close> and leaves \<open>round\<close> at 0
  (\<open>round'\<close> below, \<open>it\<close> being the iterator \<open>round\<close> of the history).
\<close>

definition cmd_payouts :: "env \<Rightarrow> univalue list \<Rightarrow> univalue rpc" where
  "cmd_payouts E params =
     TRY_LOCK cs_rewardscache (cache_lock_free E) (\<lambda>cacheLocked.
       if \<not> cacheLocked then throw busy
       else call CallGetCurrentRound
         (let current = GetCurrentRound E in
          if number current = 0 then throw not_ready
          else
            let err = ''Past SmartReward round required: 1 - '' @ show_int (number current - 1) @ '' '' in
            if length params \<noteq> 2 then throw (JSONRPCError RPC_INVALID_PARAMETER err)
            else
              (case (case get_str (params ! 1) of Inl e \<Rightarrow> Inl e | Inr s \<Rightarrow> stoi s) of
                 Inl invalid_argument \<Rightarrow> throw (JSONRPCError RPC_INVALID_PARAMETER err)
               | Inl out_of_range \<Rightarrow> throw (JSONRPCError RPC_INVALID_PARAMETER err)
               | tried \<Rightarrow>
                   let round' = (case tried of Inr n \<Rightarrow> n | Inl _ \<Rightarrow> 0) in
                   if round' < 1 \<or> round' \<ge> number current
                   then throw (JSONRPCError RPC_INVALID_PARAMETER err)
                   else call (CallGetRewardPayouts round')
                     (case GetRewardPayouts E round' of
                        None \<Rightarrow> throw fetch_failed
                      | Some payouts \<Rightarrow>
                          ret (VARR (map (\<lambda>payout. VOBJ
                            [(''address'', VSTR (ToString (entry_id (entry payout)))),
                             (''reward'', VREAL (format E (reward payout)))]) payouts))))))"

text \<open>Lines 190 to 236: \<open>snapshot\<close>.\<close>

definition cmd_snapshot :: "env \<Rightarrow> univalue list \<Rightarrow> univalue rpc" where
  "cmd_snapshot E params =
     TRY_LOCK cs_rewardscache (cache_lock_free E) (\<lambda>cacheLocked.
       if \<not> cacheLocked then throw busy
       else call CallGetCurrentRound
         (let current = GetCurrentRound E in
          if number current = 0 then throw not_ready
          else
            let err = ''Past SmartReward round required: 1 - '' @ show_int (number current - 1) @ '' '' in
            if length params \<noteq> 2 then throw (JSONRPCError RPC_INVALID_PARAMETER err)
            else
              (case (case get_str (params ! 1) of Inl e \<Rightarrow> Inl e | Inr s \<Rightarrow> stoi s) of
                 Inl invalid_argument \<Rightarrow> throw (JSONRPCError RPC_INVALID_PARAMETER err)
               | Inl out_of_range \<Rightarrow> throw (JSONRPCError RPC_INVALID_PARAMETER err)
               | tried \<Rightarrow>
                   let round' = (case tried of Inr n \<Rightarrow> n | Inl _ \<Rightarrow> 0) in
                   if round' < 1 \<or> round' \<ge> number current
                   then throw (JSONRPCError RPC_INVALID_PARAMETER err)
                   else call (CallGetRewardRoundResults round')
                     (case GetRewardRoundResults E round' of
                        None \<Rightarrow> throw fetch_failed
                      | Some results \<Rightarrow>
                          ret (VARR (map (\<lambda>s. VOBJ
                            [(''address'', VSTR (ToString (entry_id (entry s)))),
                             (''balance'', VREAL (format E (balance (entry s))))]) results))))))"

text \<open>Lines 238 to 269: \<open>check\<close>.\<close>

definition cmd_check :: "env \<Rightarrow> univalue list \<Rightarrow> univalue rpc" where
  "cmd_check E params =
     (if length params \<noteq> 2
      then throw (JSONRPCError RPC_INVALID_PARAMETER ''SmartCash address required.'')
      else TRY_LOCK cs_rewardscache (cache_lock_free E) (\<lambda>cacheLocked.
        if \<not> cacheLocked then throw busy
        else call CallGetCurrentRound
          (let current = GetCurrentRound E;
               nFirst_1_3_Round = nRewardsFirst_1_3_Round E in
           case get_str (params ! 1) of
             Inl e \<Rightarrow> throw e
           | Inr addressString \<Rightarrow>
               let id' = Legacy E addressString in
               if \<not> IsValid id'
               then throw (JSONRPCError RPC_DATABASE_ERROR
                             (''Invalid SmartCash address provided: '' @ addressString))
               else call (CallGetRewardEntry id')
                 (case GetRewardEntry E id' of
                    None \<Rightarrow> throw (JSONRPCError RPC_DATABASE_ERROR
                                     ''Couldn't find this SmartCash address in the database.'')
                  | Some entry' \<Rightarrow> ret (VOBJ
                      [(''address'', VSTR (ToString id')),
                       (''balance'', VREAL (format E (balance entry'))),
                       (''balance_eligible'', VREAL (format E (balanceEligible entry'))),
                       (''is_smartnode'', VBOOL (\<not> smartnodePaymentTx_IsNull entry')),
                       (''activated'', VBOOL (fActivated entry')),
                       (''eligible'',
                          VBOOL (if number current < nFirst_1_3_Round
                                 then balanceEligible entry' > 0
                                 else IsEligible entry'))])))))"

subsection \<open>The entry point \<open>smartrewards\<close>\<close>

definition smartrewards :: "env \<Rightarrow> univalue list \<Rightarrow> bool \<Rightarrow> univalue rpc" where
  "smartrewards E params fHelp =
     (case (if length params \<ge> 1 then get_str (params ! 0) else Inr []) of
        Inl e \<Rightarrow> throw e
      | Inr strCommand \<Rightarrow>
          if fHelp \<or>
             (strCommand \<noteq> ''current'' \<and> strCommand \<noteq> ''snapshot'' \<and> strCommand \<noteq> ''history''
              \<and> strCommand \<noteq> ''check'' \<and> strCommand \<noteq> ''payouts'')
          then throw (runtime_error smartrewards_help)
          else check_synced E
            (TRY_LOCK cs_rewardsdb (db_lock_free E) (\<lambda>lockRewardsDb.
               if \<not> lockRewardsDb then throw busy
               else if strCommand = ''current'' then cmd_current E
               else if strCommand = ''history'' then cmd_history E
               else if strCommand = ''payouts'' then cmd_payouts E params
               else if strCommand = ''snapshot'' then cmd_snapshot E params
               else if strCommand = ''check'' then cmd_check E params
               else ret VNULL)))"

subsection \<open>The entry point \<open>termrewards\<close>\<close>

definition termrewards_help :: string where
  "termrewards_help =
     ''termrewardds\<newline>'' @
     ''Display addresses currently eligible to TermRewards\<newline>'' @
     ''\<newline>Result (if verbose > 0):\<newline>'' @
     ''[\<newline>'' @
     '' {\<newline>'' @
     ''  \"address\" : \"smartcash address\",  (string) smartcash address\<newline>'' @
     ''  \"tx_hash\" : \"hash\",               (string) hash of the locking tx\<newline>'' @
     ''  \"balance\" : \"term balance\",       (string) Term balance\<newline>'' @
     ''  \"level\" : \"years\",                (string) TermRewards level (1, 2, 3 years)\<newline>'' @
     ''  \"percent\" : \"% Annual Return\",     (string) Return in % per year\<newline>'' @
     ''  \"expires\" : \"expires\",             (string) Term Expiration Date\<newline>'' @
     '' },\<newline>'' @
     '' {\<newline>'' @
     '' ...\<newline>'' @
     '' }\<newline>'' @
     '']\<newline>''"

definition busy_term :: exception where
  "busy_term = JSONRPCError RPC_DATABASE_ERROR ''Rewards database is busy.  Try again''"

definition term_obj :: "env \<Rightarrow> CTermRewardEntry \<Rightarrow> univalue" where
  "term_obj E e = VOBJ
     [(''address'', VSTR (GetAddress e)),
      (''tx_hash'', VSTR (txHash_GetHex e)),
      (''balance'', VREAL (format E (term_balance e))),
      (''level'', GetLevel e),
      (''percent'', term_percent e),
      (''expires'', expires e)]"

text \<open>The loop of lines 320 to 329 over the entries; \<open>arr\<close> is the array built so far.\<close>

fun term_loop :: "env \<Rightarrow> CTermRewardEntry list \<Rightarrow> univalue list \<Rightarrow> univalue list" where
  "term_loop E [] arr = arr"
| "term_loop E (e # rest) arr = term_loop E rest (arr @ [term_obj E e])"

definition termrewards :: "env \<Rightarrow> univalue list \<Rightarrow> bool \<Rightarrow> univalue rpc" where
  "termrewards E params fHelp =
     (if fHelp then throw (runtime_error termrewards_help)
      else check_synced E
        (TRY_LOCK cs_rewardsdb (db_lock_free E) (\<lambda>lockRewardsDb.
           if \<not> lockRewardsDb then throw busy_term
           else TRY_LOCK cs_rewardscache (cache_lock_free E) (\<lambda>cacheLocked.
             if \<not> cacheLocked then throw busy
             else call CallGetTermRewardsEntries
               (case GetTermRewardsEntries E of
                  None \<Rightarrow> throw (JSONRPCError RPC_DATABASE_ERROR ''Failed to get TermRewards entries'')
                | Some entries \<Rightarrow> ret (VARR (term_loop E entries [])))))))"

subsection \<open>What the statements below speak about\<close>

text \<open>
  The error of the round check of \<open>payouts\<close> and \<open>snapshot\<close> for a current round
  number, the call with which each of the two fetches the list of a round, and the
  integer a round argument is read as, if any.
\<close>

definition range_error :: "int \<Rightarrow> exception" where
  "range_error current =
     JSONRPCError RPC_INVALID_PARAMETER
       (''Past SmartReward round required: 1 - '' @ show_int (current - 1) @ '' '')"

definition fetch :: "string \<Rightarrow> int \<Rightarrow> event" where
  "fetch cmd n = (if cmd = ''payouts'' then CallGetRewardPayouts n else CallGetRewardRoundResults n)"

definition requested_round :: "univalue \<Rightarrow> int option" where
  "requested_round arg =
     (case arg of
        VSTR s \<Rightarrow> (case stoi s of Inr n \<Rightarrow> Some n | Inl _ \<Rightarrow> None)
      | _ \<Rightarrow> None)"

text \<open>The calls that read rounds, entries or results of the engine.\<close>

fun reads_data :: "event \<Rightarrow> bool" where
  "reads_data (TryLock _ _) = False"
| "reads_data (Unlock _) = False"
| "reads_data CallIsSynced = False"
| "reads_data _ = True"

text \<open>How often a sequence of calls tries a lock.\<close>

definition attempts :: "guard \<Rightarrow> event list \<Rightarrow> nat" where
  "attempts cs es = length (filter (\<lambda>e. e = TryLock cs True \<or> e = TryLock cs False) es)"

text \<open>
  The lock order of a sequence of calls: \<open>held\<close> says whether \<open>cs_rewardsdb\<close> is held
  by this thread; every attempt on \<open>cs_rewardscache\<close> must find it held.
\<close>

fun lock_order :: "bool \<Rightarrow> event list \<Rightarrow> bool" where
  "lock_order held [] = True"
| "lock_order held (TryLock cs_rewardsdb ok # es) = lock_order (held \<or> ok) es"
| "lock_order held (TryLock cs_rewardscache ok # es) = (held \<and> lock_order held es)"
| "lock_order held (Unlock cs_rewardsdb # es) = lock_order False es"
| "lock_order held (e # es) = lock_order held es"

subsection \<open>A node state for the examples\<close>

definition sample_round :: "int \<Rightarrow> int \<Rightarrow> int \<Rightarrow> int \<Rightarrow> int \<Rightarrow> CSmartRewardRound" where
  "sample_round n eligible disqualified eligibleAmount disqualifiedAmount =
     \<lparr>number = n, startBlockHeight = 1000 * n, startBlockTime = 60000 * n,
      endBlockHeight = 1000 * n + 999, endBlockTime = 60000 * n + 59940,
      eligibleEntries = eligible, eligibleSmart = eligibleAmount,
      disqualifiedEntries = disqualified, disqualifiedSmart = disqualifiedAmount,
      nBlockPayees = 40, nBlockInterval = 2, rewards = 300000000, percent = 2 / 100,
      GetPayeeCount = eligible - disqualified,
      GetRewardBlocks = (eligible - disqualified + 39) div 40,
      GetLastRoundBlock = 1000 * n + 999 + 200 + 2 * ((eligible - disqualified + 39) div 40)\<rparr>"

definition sample_address :: string where
  "sample_address = ''SXun9XDHLdBhG4Yd1ueZfLfRpC9kZgwT1b''"

definition sample_entry :: CSmartRewardEntry where
  "sample_entry =
     \<lparr>entry_id = \<lparr>IsValid = True, ToString = sample_address\<rparr>,
      balance = 150000000000, balanceEligible = 0,
      smartnodePaymentTx_IsNull = True, fActivated = True, IsEligible = True\<rparr>"

definition sample_term :: CTermRewardEntry where
  "sample_term =
     \<lparr>GetAddress = sample_address, txHash_GetHex = ''00ff'', term_balance = 2500000000000,
      GetLevel = VSTR ''1 Year'', term_percent = VINT 40, expires = VINT 1700000000\<rparr>"

definition sample_env :: env where
  "sample_env =
     \<lparr>fDebug = False, COIN = 100000000, fl = (\<lambda>x. x),
      nRewardsPayoutStartDelay = 200, nRewardsFirst_1_3_Round = 5,
      db_lock_free = True, cache_lock_free = True, IsSynced = True,
      GetCurrentRound = sample_round 5 10 12 1000000000 1250000000,
      GetRewardRounds = [(3, sample_round 3 100 10 5000 100), (4, sample_round 4 12 12 700 700)],
      GetRewardPayouts = (\<lambda>n. if n = 3 then Some [\<lparr>entry = sample_entry, reward = 123456789\<rparr>] else None),
      GetRewardRoundResults = (\<lambda>n. if n = 3 then Some [\<lparr>entry = sample_entry, reward = 0\<rparr>] else None),
      Legacy = (\<lambda>s. \<lparr>IsValid = (s = sample_address), ToString = s\<rparr>),
      GetRewardEntry = (\<lambda>a. if ToString a = sample_address then Some sample_entry else None),
      GetTermRewardsEntries = Some [sample_term]\<rparr>"

section \<open>Properties\<close>

subsection \<open>Auxiliary facts\<close>

lemmas rpc_defs = throw_def ret_def call_def TRY_LOCK_def

lemma sdiv_nonneg: "0 \<le> a \<Longrightarrow> 0 < b \<Longrightarrow> (a::int) sdiv b = a div b"
  by (cases "a = 0") (simp_all add: signed_divide_int_def sgn_if)

lemma smod_nonneg: "0 \<le> a \<Longrightarrow> 0 < b \<Longrightarrow> (a::int) smod b = a mod b"
  by (cases "a = 0") (simp_all add: signed_modulo_int_def sgn_if)

text \<open>No command touches \<open>cs_rewardsdb\<close>: the entry point alone tries it.\<close>

lemma cmd_current_no_db: "TryLock cs_rewardsdb b \<notin> set (fst (cmd_current E))"
  by (simp add: cmd_current_def rpc_defs Let_def)

lemma cmd_history_no_db: "TryLock cs_rewardsdb b \<notin> set (fst (cmd_history E))"
  by (simp add: cmd_history_def rpc_defs Let_def split: sum.split)

lemma cmd_payouts_no_db: "TryLock cs_rewardsdb b \<notin> set (fst (cmd_payouts E params))"
  by (simp add: cmd_payouts_def rpc_defs Let_def split: sum.split exception.split option.split)

lemma cmd_snapshot_no_db: "TryLock cs_rewardsdb b \<notin> set (fst (cmd_snapshot E params))"
  by (simp add: cmd_snapshot_def rpc_defs Let_def split: sum.split exception.split option.split)

lemma cmd_check_no_db: "TryLock cs_rewardsdb b \<notin> set (fst (cmd_check E params))"
  by (simp add: cmd_check_def rpc_defs Let_def split: sum.split option.split)

lemmas cmd_no_db =
  cmd_current_no_db cmd_history_no_db cmd_payouts_no_db cmd_snapshot_no_db cmd_check_no_db

text \<open>Every command keeps the lock order when it starts with \<open>cs_rewardsdb\<close> held.\<close>

lemma lock_order_unlock: "lock_order held (es @ [Unlock g]) = lock_order held es"
  by (induction held es rule: lock_order.induct) (cases g; simp)+

lemma cmd_current_order: "lock_order True (fst (cmd_current E))"
  by (simp add: cmd_current_def rpc_defs Let_def)

lemma cmd_history_order: "lock_order True (fst (cmd_history E))"
  by (simp add: cmd_history_def rpc_defs Let_def split: sum.split)

lemma cmd_payouts_order: "lock_order True (fst (cmd_payouts E params))"
  by (simp add: cmd_payouts_def rpc_defs Let_def split: sum.split exception.split option.split)

lemma cmd_snapshot_order: "lock_order True (fst (cmd_snapshot E params))"
  by (simp add: cmd_snapshot_def rpc_defs Let_def split: sum.split exception.split option.split)

lemma cmd_check_order: "lock_order True (fst (cmd_check E params))"
  by (simp add: cmd_check_def rpc_defs Let_def split: sum.split option.split)

lemmas cmd_order =
  cmd_current_order cmd_history_order cmd_payouts_order cmd_snapshot_order cmd_check_order

text \<open>The checker is not trivial: an attempt on the cache lock alone breaks the order.\<close>

lemma lock_order_violation: "\<not> lock_order False [TryLock cs_rewardscache True]"
  by simp

text \<open>\<open>payouts\<close> and \<open>snapshot\<close> once the cache lock is taken and a round is active.\<close>

lemma range_error_neq: "range_error c \<noteq> fetch_failed"
  by (simp add: range_error_def fetch_failed_def)

lemma cmd_payouts_eq:
  assumes "cache_lock_free E" and "number (GetCurrentRound E) \<noteq> 0"
  shows "cmd_payouts E [c, arg] =
    (if \<exists>n. requested_round arg = Some n \<and> 1 \<le> n \<and> n < number (GetCurrentRound E)
     then ([TryLock cs_rewardscache True, CallGetCurrentRound,
            CallGetRewardPayouts (the (requested_round arg)), Unlock cs_rewardscache],
           case GetRewardPayouts E (the (requested_round arg)) of
             None \<Rightarrow> Inl fetch_failed
           | Some payouts \<Rightarrow> Inr (VARR (map (\<lambda>payout. VOBJ
               [(''address'', VSTR (ToString (entry_id (entry payout)))),
                (''reward'', VREAL (format E (reward payout)))]) payouts)))
     else ([TryLock cs_rewardscache True, CallGetCurrentRound, Unlock cs_rewardscache],
           Inl (range_error (number (GetCurrentRound E)))))"
  using assms
  by (auto simp: cmd_payouts_def rpc_defs Let_def requested_round_def get_str_def range_error_def
           split: sum.split exception.split option.split univalue.split)

lemma cmd_snapshot_eq:
  assumes "cache_lock_free E" and "number (GetCurrentRound E) \<noteq> 0"
  shows "cmd_snapshot E [c, arg] =
    (if \<exists>n. requested_round arg = Some n \<and> 1 \<le> n \<and> n < number (GetCurrentRound E)
     then ([TryLock cs_rewardscache True, CallGetCurrentRound,
            CallGetRewardRoundResults (the (requested_round arg)), Unlock cs_rewardscache],
           case GetRewardRoundResults E (the (requested_round arg)) of
             None \<Rightarrow> Inl fetch_failed
           | Some results \<Rightarrow> Inr (VARR (map (\<lambda>s. VOBJ
               [(''address'', VSTR (ToString (entry_id (entry s)))),
                (''balance'', VREAL (format E (balance (entry s))))]) results)))
     else ([TryLock cs_rewardscache True, CallGetCurrentRound, Unlock cs_rewardscache],
           Inl (range_error (number (GetCurrentRound E)))))"
  using assms
  by (auto simp: cmd_snapshot_def rpc_defs Let_def requested_round_def get_str_def range_error_def
           split: sum.split exception.split option.split univalue.split)

lemma round_cmd_trace:
  assumes "cmd = ''payouts'' \<or> cmd = ''snapshot''"
    and "\<not> fHelp" and "fDebug E \<or> IsSynced E" and "db_lock_free E" and "cache_lock_free E"
    and "number (GetCurrentRound E) \<noteq> 0"
  shows "fst (smartrewards E [VSTR cmd, arg] fHelp) =
           (if fDebug E then [] else [CallIsSynced]) @
           [TryLock cs_rewardsdb True, TryLock cs_rewardscache True, CallGetCurrentRound] @
           (if \<exists>n. requested_round arg = Some n \<and> 1 \<le> n \<and> n < number (GetCurrentRound E)
            then [fetch cmd (the (requested_round arg))] else []) @
           [Unlock cs_rewardscache, Unlock cs_rewardsdb]"
  using assms
  by (auto simp: smartrewards_def check_synced_def get_str_def cmd_payouts_eq cmd_snapshot_eq
                 fetch_def rpc_defs)

lemma round_cmd_result:
  assumes "cmd = ''payouts'' \<or> cmd = ''snapshot''"
    and "\<not> fHelp" and "fDebug E \<or> IsSynced E" and "db_lock_free E" and "cache_lock_free E"
    and "number (GetCurrentRound E) \<noteq> 0"
  shows "(snd (smartrewards E [VSTR cmd, arg] fHelp) = Inl (range_error (number (GetCurrentRound E)))) =
         (\<not> (\<exists>n. requested_round arg = Some n \<and> 1 \<le> n \<and> n < number (GetCurrentRound E)))"
  using assms range_error_neq[of "number (GetCurrentRound E)"]
  by (auto simp: smartrewards_def check_synced_def get_str_def cmd_payouts_eq cmd_snapshot_eq
                 rpc_defs split: option.splits)

lemma fetch_inject: "(fetch cmd n = fetch cmd m) = (n = m)"
  by (simp add: fetch_def)

lemma fetch_distinct:
  "fetch cmd n \<noteq> TryLock g b" "fetch cmd n \<noteq> Unlock g"
  "fetch cmd n \<noteq> CallIsSynced" "fetch cmd n \<noteq> CallGetCurrentRound"
  by (simp_all add: fetch_def)

text \<open>\<open>std::stoi\<close> on a string that starts with digits, and on what \<open>%d\<close> prints.\<close>

lemma isdigit_not_space: "isdigit c \<Longrightarrow> \<not> isspace c \<and> c \<noteq> CHR ''-'' \<and> c \<noteq> CHR ''+''"
  by (auto simp: isdigit_def isspace_def)

lemma digit_value_nonneg: "isdigit c \<Longrightarrow> 0 \<le> digit_value c \<and> digit_value c \<le> 9"
  by (auto simp: isdigit_def digit_value_def)

lemma foldl_decimal_nonneg:
  "0 \<le> acc \<Longrightarrow> \<forall>c\<in>set ds. isdigit c \<Longrightarrow> 0 \<le> foldl (\<lambda>acc c. acc * 10 + digit_value c) acc ds"
proof (induction ds arbitrary: acc)
  case Nil
  then show ?case by simp
next
  case (Cons d ds)
  have "0 \<le> acc * 10 + digit_value d"
    using Cons.prems digit_value_nonneg[of d] by simp
  then show ?case using Cons by simp
qed

lemma decimal_nonneg: "\<forall>c\<in>set ds. isdigit c \<Longrightarrow> 0 \<le> decimal ds"
  unfolding decimal_def by (rule foldl_decimal_nonneg) simp_all

lemma stoi_digits:
  assumes "ds \<noteq> []" and "\<forall>c\<in>set ds. isdigit c" and "rest = [] \<or> \<not> isdigit (hd rest)"
  shows "stoi (ds @ rest) = (if decimal ds \<le> INT_MAX then Inr (decimal ds) else Inl out_of_range)"
proof -
  obtain d ds' where ds: "ds = d # ds'" using assms(1) by (cases ds) auto
  have d: "isdigit d" "\<not> isspace d" "d \<noteq> CHR ''-''" "d \<noteq> CHR ''+''"
    using assms(2) ds isdigit_not_space[of d] by simp_all
  have "takeWhile isdigit rest = []"
    using assms(3) by (cases rest) auto
  then have take: "takeWhile isdigit (ds' @ rest) = ds'"
    using assms(2) ds by (simp add: takeWhile_append2)
  have nn: "\<not> decimal (d # ds') < INT_MIN"
    using decimal_nonneg[OF assms(2)] ds by (simp add: INT_MIN_def)
  have "stoi (d # ds' @ rest) =
          (if decimal (d # ds') \<le> INT_MAX then Inr (decimal (d # ds')) else Inl out_of_range)"
    using d nn by (simp add: stoi_def take Let_def)
  then show ?thesis by (simp add: ds)
qed

lemma decimal_snoc: "decimal (ds @ [c]) = decimal ds * 10 + digit_value c"
  by (simp add: decimal_def)

lemma digit_char:
  assumes "n < 10"
  shows "isdigit (''0123456789'' ! n) \<and> digit_value (''0123456789'' ! n) = int n"
proof -
  from assms have "n \<in> {0, 1, 2, 3, 4, 5, 6, 7, 8, 9}" by auto
  then show ?thesis by (auto simp: isdigit_def digit_value_def)
qed

lemma show_nat_digits:
  "show_nat n \<noteq> [] \<and> (\<forall>c\<in>set (show_nat n). isdigit c) \<and> decimal (show_nat n) = int n"
proof (induction n rule: show_nat.induct)
  case (1 n)
  show ?case
  proof (cases "n < 10")
    case True
    then show ?thesis
      using digit_char[of n] by (subst (1 2 3) show_nat.simps) (simp add: decimal_def)
  next
    case False
    have m: "n mod 10 < 10" by simp
    from False 1 have IH: "show_nat (n div 10) \<noteq> []" "\<forall>c\<in>set (show_nat (n div 10)). isdigit c"
       "decimal (show_nat (n div 10)) = int (n div 10)" by simp_all
    have eq: "show_nat n = show_nat (n div 10) @ [''0123456789'' ! (n mod 10)]"
      using False by (subst show_nat.simps) simp
    have "int (n div 10) * 10 + int (n mod 10) = int n"
      by (metis mult.commute of_nat_add of_nat_mult of_nat_numeral div_mult_mod_eq)
    then show ?thesis
      unfolding eq using IH digit_char[OF m] by (simp add: decimal_snoc)
  qed
qed

lemma stoi_show_int: "0 \<le> n \<Longrightarrow> n \<le> INT_MAX \<Longrightarrow> stoi (show_int n) = Inr n"
  using stoi_digits[of "show_nat (nat n)" "[]"] show_nat_digits[of "nat n"]
  by (simp add: show_int_def)

lemma term_loop_eq: "term_loop E es arr = arr @ map (term_obj E) es"
  by (induction es arbitrary: arr) simp_all

text \<open>The sample node state passes the checks that precede every command.\<close>

lemma sample_gates:
  "fDebug sample_env \<or> IsSynced sample_env" "db_lock_free sample_env" "cache_lock_free sample_env"
  "number (GetCurrentRound sample_env) = 5"
  by (simp_all add: sample_env_def sample_round_def)

lemma requested_round_samples:
  "requested_round (VSTR ''1'') = Some 1" "requested_round (VSTR ''2'') = Some 2"
  "requested_round (VSTR ''3'') = Some 3" "requested_round (VSTR ''4'') = Some 4"
  "requested_round (VSTR ''0'') = Some 0" "requested_round (VSTR ''5'') = Some 5"
  "requested_round (VSTR ''6'') = Some 6" "requested_round (VSTR ''-1'') = Some (- 1)"
  "requested_round (VSTR ''abc'') = None" "requested_round (VSTR ''3abc'') = Some 3"
  "requested_round (VINT 3) = None"
  by (simp_all add: requested_round_def stoi_def isspace_def isdigit_def decimal_def
                    digit_value_def INT_MIN_def INT_MAX_def Let_def)

lemma requested_round_stoi:
  "(\<exists>n. requested_round (VSTR s) = Some n \<and> 1 \<le> n \<and> n < c) =
   (\<not> (stoi s = Inl invalid_argument \<or> stoi s = Inl out_of_range \<or>
        (\<exists>n. stoi s = Inr n \<and> (n < 1 \<or> c \<le> n))))"
proof (cases "stoi s")
  case (Inl e)
  then have "e = invalid_argument \<or> e = out_of_range"
    by (auto simp: stoi_def Let_def split: if_splits)
  with Inl show ?thesis by (auto simp: requested_round_def)
next
  case (Inr n)
  then show ?thesis by (auto simp: requested_round_def)
qed

text \<open>A round of the history whose remainder is defined yields an object.\<close>

lemma roundObj_payouts:
  assumes "GetPayeeCount r \<noteq> 0 \<longrightarrow> nBlockPayees r \<noteq> 0"
  shows "\<exists>obj. roundObj E r = Inr obj \<and>
           find_value obj ''payouts'' =
             Some (if GetPayeeCount r \<noteq> 0
                   then VOBJ
                     [(''firstBlock'', VINT (endBlockHeight r + nRewardsPayoutStartDelay E)),
                      (''totalBlocks'', VINT (GetRewardBlocks r)),
                      (''lastBlock'', VINT (GetLastRoundBlock r)),
                      (''totalPayees'', VINT (GetPayeeCount r)),
                      (''blockPayees'', VINT (nBlockPayees r)),
                      (''lastBlockPayees'', VINT (GetPayeeCount r smod nBlockPayees r)),
                      (''blockInterval'', VINT (nBlockInterval r))]
                   else VOBJ [(''None'', VSTR ''No payees were eligible for this round'')])"
  using assms by (simp add: roundObj_def payObj_def find_value_def)

lemma history_loop_eq:
  assumes "\<forall>it\<in>set rounds. GetPayeeCount (snd it) \<noteq> 0 \<longrightarrow> nBlockPayees (snd it) \<noteq> 0"
  shows "history_loop E rounds obj = Inr (obj @ map (\<lambda>it. projr (roundObj E (snd it))) rounds)"
  using assms
proof (induction rounds arbitrary: obj)
  case Nil
  then show ?case by simp
next
  case (Cons it rounds)
  from Cons.prems obtain ro where ro: "roundObj E (snd it) = Inr ro"
    using roundObj_payouts[of "snd it" E] by auto
  show ?case
    using Cons ro by simp
qed

lemma history_loop_Inr:
  "history_loop E rounds obj = Inr objs \<Longrightarrow>
   \<forall>it\<in>set rounds. GetPayeeCount (snd it) \<noteq> 0 \<longrightarrow> nBlockPayees (snd it) \<noteq> 0"
proof (induction rounds arbitrary: obj)
  case Nil
  then show ?case by simp
next
  case (Cons it rounds)
  from Cons.prems obtain ro where ro: "roundObj E (snd it) = Inr ro"
    by (cases "roundObj E (snd it)") auto
  then have "GetPayeeCount (snd it) \<noteq> 0 \<longrightarrow> nBlockPayees (snd it) \<noteq> 0"
    by (auto simp: roundObj_def payObj_def split: sum.splits if_splits)
  moreover have "\<forall>it\<in>set rounds. GetPayeeCount (snd it) \<noteq> 0 \<longrightarrow> nBlockPayees (snd it) \<noteq> 0"
    using Cons.IH[of "obj @ [ro]"] Cons.prems ro by simp
  ultimately show ?case by simp
qed

lemma history_returns:
  assumes "snd (smartrewards E (VSTR ''history'' # args) fHelp) = Inr v"
  shows "\<not> fHelp \<and> (fDebug E \<or> IsSynced E) \<and> db_lock_free E \<and> cache_lock_free E
         \<and> GetRewardRounds E \<noteq> []
         \<and> (\<forall>it\<in>set (GetRewardRounds E). GetPayeeCount (snd it) \<noteq> 0 \<longrightarrow> nBlockPayees (snd it) \<noteq> 0)"
proof -
  from assms have g: "\<not> fHelp" "fDebug E \<or> IsSynced E" "db_lock_free E" "cache_lock_free E"
    "GetRewardRounds E \<noteq> []"
    by (auto simp: smartrewards_def cmd_history_def check_synced_def get_str_def rpc_defs Let_def
             split: if_splits)
  with assms obtain objs where "history_loop E (GetRewardRounds E) [] = Inr objs"
    by (auto simp: smartrewards_def cmd_history_def check_synced_def get_str_def rpc_defs Let_def
             split: if_splits sum.splits)
  from history_loop_Inr[OF this] g show ?thesis by simp
qed

lemma history_schedule:
  assumes "\<not> fHelp" and "fDebug E \<or> IsSynced E" and "db_lock_free E" and "cache_lock_free E"
    and "GetRewardRounds E \<noteq> []"
    and "\<forall>it\<in>set (GetRewardRounds E). GetPayeeCount (snd it) \<noteq> 0 \<longrightarrow> nBlockPayees (snd it) \<noteq> 0"
  shows "\<exists>objs. snd (smartrewards E (VSTR ''history'' # args) fHelp) = Inr (VARR objs)
          \<and> length objs = length (GetRewardRounds E)
          \<and> (\<forall>i < length objs.
                let r = snd (GetRewardRounds E ! i) in
                find_value (objs ! i) ''payouts'' =
                  Some (if GetPayeeCount r \<noteq> 0
                        then VOBJ
                          [(''firstBlock'', VINT (endBlockHeight r + nRewardsPayoutStartDelay E)),
                           (''totalBlocks'', VINT (GetRewardBlocks r)),
                           (''lastBlock'', VINT (GetLastRoundBlock r)),
                           (''totalPayees'', VINT (GetPayeeCount r)),
                           (''blockPayees'', VINT (nBlockPayees r)),
                           (''lastBlockPayees'', VINT (GetPayeeCount r smod nBlockPayees r)),
                           (''blockInterval'', VINT (nBlockInterval r))]
                        else VOBJ [(''None'', VSTR ''No payees were eligible for this round'')])
                \<and> (0 \<le> GetPayeeCount r \<and> 0 < nBlockPayees r \<longrightarrow>
                     GetPayeeCount r smod nBlockPayees r = GetPayeeCount r mod nBlockPayees r))"
proof -
  let ?objs = "map (\<lambda>it. projr (roundObj E (snd it))) (GetRewardRounds E)"
  have res: "snd (smartrewards E (VSTR ''history'' # args) fHelp) = Inr (VARR ?objs)"
    using assms(1-5) history_loop_eq[OF assms(6), of E "[]"]
    by (auto simp: smartrewards_def cmd_history_def check_synced_def get_str_def rpc_defs Let_def)
  have each: "find_value (?objs ! i) ''payouts'' =
                  Some (if GetPayeeCount r \<noteq> 0
                        then VOBJ
                          [(''firstBlock'', VINT (endBlockHeight r + nRewardsPayoutStartDelay E)),
                           (''totalBlocks'', VINT (GetRewardBlocks r)),
                           (''lastBlock'', VINT (GetLastRoundBlock r)),
                           (''totalPayees'', VINT (GetPayeeCount r)),
                           (''blockPayees'', VINT (nBlockPayees r)),
                           (''lastBlockPayees'', VINT (GetPayeeCount r smod nBlockPayees r)),
                           (''blockInterval'', VINT (nBlockInterval r))]
                        else VOBJ [(''None'', VSTR ''No payees were eligible for this round'')])"
    if i: "i < length ?objs" and r: "r = snd (GetRewardRounds E ! i)" for i r
  proof -
    from i have mem: "GetRewardRounds E ! i \<in> set (GetRewardRounds E)" by simp
    with assms(6) r have ok: "GetPayeeCount r \<noteq> 0 \<longrightarrow> nBlockPayees r \<noteq> 0" by blast
    from roundObj_payouts[OF ok, of E] obtain obj where
      obj: "roundObj E r = Inr obj" and
      fv: "find_value obj ''payouts'' =
                  Some (if GetPayeeCount r \<noteq> 0
                        then VOBJ
                          [(''firstBlock'', VINT (endBlockHeight r + nRewardsPayoutStartDelay E)),
                           (''totalBlocks'', VINT (GetRewardBlocks r)),
                           (''lastBlock'', VINT (GetLastRoundBlock r)),
                           (''totalPayees'', VINT (GetPayeeCount r)),
                           (''blockPayees'', VINT (nBlockPayees r)),
                           (''lastBlockPayees'', VINT (GetPayeeCount r smod nBlockPayees r)),
                           (''blockInterval'', VINT (nBlockInterval r))]
                        else VOBJ [(''None'', VSTR ''No payees were eligible for this round'')])"
      by blast
    have "?objs ! i = obj" using i r obj by simp
    then show ?thesis using fv by simp
  qed
  have "length ?objs = length (GetRewardRounds E)" by simp
  then show ?thesis
    using res each by (intro exI[of _ ?objs]) (simp add: Let_def smod_nonneg)
qed

subsection \<open>The durable-store lock is tried once\<close>

text \<open>
  Claim C1. If the attempt on \<open>cs_rewardsdb\<close> fails, the command fails with the busy
  error of \<open>RPC_DATABASE_ERROR\<close>, and the whole run is the call of \<open>IsSynced\<close> (made
  unless \<open>fDebug\<close> is set) followed by that one failed attempt: no call reads a round,
  an entry or a result, and \<open>cs_rewardsdb\<close> is tried once. This holds for
  \<open>smartrewards\<close> with any arguments, hence for each of its five commands, and for
  \<open>termrewards\<close>.
\<close>

theorem db_guard_busy:
  "(TryLock cs_rewardsdb False \<in> set (fst (smartrewards E params fHelp)) \<longrightarrow>
      smartrewards E params fHelp =
        ((if fDebug E then [] else [CallIsSynced]) @ [TryLock cs_rewardsdb False], Inl busy)
      \<and> filter reads_data (fst (smartrewards E params fHelp)) = []
      \<and> attempts cs_rewardsdb (fst (smartrewards E params fHelp)) = 1)
   \<and> (TryLock cs_rewardsdb False \<in> set (fst (termrewards E params fHelp)) \<longrightarrow>
      termrewards E params fHelp =
        ((if fDebug E then [] else [CallIsSynced]) @ [TryLock cs_rewardsdb False], Inl busy_term)
      \<and> filter reads_data (fst (termrewards E params fHelp)) = []
      \<and> attempts cs_rewardsdb (fst (termrewards E params fHelp)) = 1)"
proof (intro conjI impI)
  assume a: "TryLock cs_rewardsdb False \<in> set (fst (smartrewards E params fHelp))"
  then show s: "smartrewards E params fHelp =
        ((if fDebug E then [] else [CallIsSynced]) @ [TryLock cs_rewardsdb False], Inl busy)"
    by (auto simp: smartrewards_def check_synced_def rpc_defs cmd_no_db split: sum.splits if_splits)
  show "filter reads_data (fst (smartrewards E params fHelp)) = []"
    by (simp add: s)
  show "attempts cs_rewardsdb (fst (smartrewards E params fHelp)) = 1"
    by (simp add: s attempts_def)
next
  assume a: "TryLock cs_rewardsdb False \<in> set (fst (termrewards E params fHelp))"
  then show s: "termrewards E params fHelp =
        ((if fDebug E then [] else [CallIsSynced]) @ [TryLock cs_rewardsdb False], Inl busy_term)"
    by (auto simp: termrewards_def check_synced_def rpc_defs split: sum.splits if_splits option.splits)
  show "filter reads_data (fst (termrewards E params fHelp)) = []"
    by (simp add: s)
  show "attempts cs_rewardsdb (fst (termrewards E params fHelp)) = 1"
    by (simp add: s attempts_def)
qed

text \<open>
  The attempt is made for every recognised command once the help and freshness checks
  are passed, so the statement above applies to each of them.
\<close>

lemma db_guard_attempted:
  assumes "cmd \<in> {''current'', ''history'', ''payouts'', ''snapshot'', ''check''}"
    and "\<not> fHelp" and "fDebug E \<or> IsSynced E" and "\<not> db_lock_free E"
  shows "TryLock cs_rewardsdb False \<in> set (fst (smartrewards E (VSTR cmd # args) fHelp))"
    and "TryLock cs_rewardsdb False \<in> set (fst (termrewards E params fHelp))"
  using assms
  by (auto simp: smartrewards_def termrewards_def check_synced_def get_str_def rpc_defs)

theorem db_guard_busy_witness:
  "TryLock cs_rewardsdb False
     \<in> set (fst (smartrewards (sample_env\<lparr>db_lock_free := False\<rparr>) [VSTR ''current''] False))
   \<and> smartrewards (sample_env\<lparr>db_lock_free := False\<rparr>) [VSTR ''current''] False =
       ([CallIsSynced, TryLock cs_rewardsdb False], Inl busy)
   \<and> TryLock cs_rewardsdb False
     \<in> set (fst (termrewards (sample_env\<lparr>db_lock_free := False\<rparr>) [] False))
   \<and> termrewards (sample_env\<lparr>db_lock_free := False\<rparr>) [] False =
       ([CallIsSynced, TryLock cs_rewardsdb False], Inl busy_term)"
proof -
  have a: "TryLock cs_rewardsdb False
     \<in> set (fst (smartrewards (sample_env\<lparr>db_lock_free := False\<rparr>) [VSTR ''current''] False))"
    by (simp add: smartrewards_def check_synced_def get_str_def rpc_defs sample_env_def)
  have b: "TryLock cs_rewardsdb False
     \<in> set (fst (termrewards (sample_env\<lparr>db_lock_free := False\<rparr>) [] False))"
    by (simp add: termrewards_def check_synced_def rpc_defs sample_env_def)
  have d: "\<not> fDebug (sample_env\<lparr>db_lock_free := False\<rparr>)"
    by (simp add: sample_env_def)
  show ?thesis
    using a b d
      db_guard_busy[of "sample_env\<lparr>db_lock_free := False\<rparr>" "[VSTR ''current'']" False]
      db_guard_busy[of "sample_env\<lparr>db_lock_free := False\<rparr>" "[]" False]
    by simp
qed

subsection \<open>Lock order\<close>

text \<open>
  Claim C6. On every run of \<open>smartrewards\<close> and of \<open>termrewards\<close>, whatever the
  arguments and the state of the node, each attempt on \<open>cs_rewardscache\<close> is made while
  \<open>cs_rewardsdb\<close> is held: the lock order starting from "not held" is kept.
\<close>

theorem lock_order_kept:
  "lock_order False (fst (smartrewards E params fHelp))
   \<and> lock_order False (fst (termrewards E params fHelp))"
  by (simp add: smartrewards_def termrewards_def check_synced_def rpc_defs cmd_order
                lock_order_unlock split: sum.split option.split)

subsection \<open>The round argument of \<open>payouts\<close> and \<open>snapshot\<close>\<close>

text \<open>
  Claim C2. For \<open>payouts\<close> and for \<open>snapshot\<close>, once the command runs with both locks
  and the current round has a number \<open>current \<noteq> 0\<close>: the list of round \<open>n\<close> is fetched
  exactly when the argument reads as the integer \<open>n\<close> and \<open>n\<close> lies in
  \<open>{1 .. current - 1}\<close>; in every other case (the argument is no string, does not read
  as an integer, reads as an integer below 1 or at least \<open>current\<close>) the command fails
  with one and the same \<open>RPC_INVALID_PARAMETER\<close> error, whose message prints
  \<open>current - 1\<close> as the upper end of the range \<open>1 - \<dots>\<close>; the error does not depend on
  which of the two commands is run. Every round of the range that an \<open>int\<close> holds can be
  requested, by its decimal numeral.
\<close>

theorem round_range_validation:
  assumes "cmd = ''payouts'' \<or> cmd = ''snapshot''"
    and "\<not> fHelp" and "fDebug E \<or> IsSynced E" and "db_lock_free E" and "cache_lock_free E"
    and "number (GetCurrentRound E) = current" and "current \<noteq> 0"
  shows "(\<forall>n. (fetch cmd n \<in> set (fst (smartrewards E [VSTR cmd, arg] fHelp))) =
              (requested_round arg = Some n \<and> n \<in> {1 .. current - 1}))
       \<and> ((snd (smartrewards E [VSTR cmd, arg] fHelp) = Inl (range_error current)) =
              (\<forall>n. requested_round arg = Some n \<longrightarrow> n \<notin> {1 .. current - 1}))
       \<and> (\<forall>n \<in> {1 .. current - 1}. n \<le> INT_MAX \<longrightarrow>
              requested_round (VSTR (show_int n)) = Some n)"
proof -
  have n0: "number (GetCurrentRound E) \<noteq> 0" using assms by simp
  note tr = round_cmd_trace[OF assms(1-5) n0, of arg]
  note rs = round_cmd_result[OF assms(1-5) n0, of arg]
  have a: "(fetch cmd n \<in> set (fst (smartrewards E [VSTR cmd, arg] fHelp))) =
              (requested_round arg = Some n \<and> n \<in> {1 .. current - 1})" for n
    unfolding tr using assms(6) by (auto simp: fetch_inject fetch_distinct)
  have b: "(snd (smartrewards E [VSTR cmd, arg] fHelp) = Inl (range_error current)) =
              (\<forall>n. requested_round arg = Some n \<longrightarrow> n \<notin> {1 .. current - 1})"
    using rs assms(6) by auto
  have c: "requested_round (VSTR (show_int n)) = Some n" if "n \<in> {1 .. current - 1}" "n \<le> INT_MAX" for n
    using that stoi_show_int[of n] by (simp add: requested_round_def)
  show ?thesis using a b c by blast
qed

text \<open>A missing or a surplus argument fails with the same error.\<close>

lemma round_cmd_arity:
  assumes "cmd = ''payouts'' \<or> cmd = ''snapshot''"
    and "\<not> fHelp" and "fDebug E \<or> IsSynced E" and "db_lock_free E" and "cache_lock_free E"
    and "number (GetCurrentRound E) \<noteq> 0" and "length args \<noteq> 1"
  shows "snd (smartrewards E (VSTR cmd # args) fHelp) = Inl (range_error (number (GetCurrentRound E)))"
  using assms
  by (auto simp: smartrewards_def cmd_payouts_def cmd_snapshot_def check_synced_def get_str_def
                 range_error_def rpc_defs Let_def)

text \<open>
  For the current round 5: rounds 1, 2, 3 and 4 are fetched; 0, 5, 6, -1 and a string
  without digits fail with the same error, whose message names the range 1 - 4.
\<close>

theorem round_range_validation_witness:
  "(''payouts'' = ''payouts'' \<or> ''payouts'' = ''snapshot'') \<and> \<not> False
   \<and> (fDebug sample_env \<or> IsSynced sample_env) \<and> db_lock_free sample_env
   \<and> cache_lock_free sample_env \<and> number (GetCurrentRound sample_env) = 5 \<and> (5::int) \<noteq> 0
   \<and> CallGetRewardPayouts 4 \<in> set (fst (smartrewards sample_env [VSTR ''payouts'', VSTR ''4''] False))
   \<and> CallGetRewardRoundResults 1 \<in> set (fst (smartrewards sample_env [VSTR ''snapshot'', VSTR ''1''] False))
   \<and> CallGetRewardPayouts 2 \<in> set (fst (smartrewards sample_env [VSTR ''payouts'', VSTR ''2''] False))
   \<and> CallGetRewardRoundResults 3 \<in> set (fst (smartrewards sample_env [VSTR ''snapshot'', VSTR ''3''] False))
   \<and> snd (smartrewards sample_env [VSTR ''payouts'', VSTR ''0''] False) = Inl (range_error 5)
   \<and> snd (smartrewards sample_env [VSTR ''payouts'', VSTR ''5''] False) = Inl (range_error 5)
   \<and> snd (smartrewards sample_env [VSTR ''snapshot'', VSTR ''6''] False) = Inl (range_error 5)
   \<and> snd (smartrewards sample_env [VSTR ''snapshot'', VSTR ''-1''] False) = Inl (range_error 5)
   \<and> snd (smartrewards sample_env [VSTR ''payouts'', VSTR ''abc''] False) = Inl (range_error 5)
   \<and> snd (smartrewards sample_env [VSTR ''snapshot'', VSTR ''abc''] False) = Inl (range_error 5)
   \<and> range_error 5 = JSONRPCError RPC_INVALID_PARAMETER ''Past SmartReward round required: 1 - 4 ''"
proof -
  note p = round_range_validation[of "''payouts''" False sample_env 5, OF _ _ sample_gates]
  note s = round_range_validation[of "''snapshot''" False sample_env 5, OF _ _ sample_gates]
  have msg: "range_error 5 = JSONRPCError RPC_INVALID_PARAMETER ''Past SmartReward round required: 1 - 4 ''"
    by (simp add: range_error_def show_int_def show_nat.simps)
  show ?thesis
    using p[of "VSTR ''4''"] s[of "VSTR ''1''"] p[of "VSTR ''2''"] s[of "VSTR ''3''"] p[of "VSTR ''0''"] p[of "VSTR ''5''"]
      s[of "VSTR ''6''"] s[of "VSTR ''-1''"] p[of "VSTR ''abc''"] s[of "VSTR ''abc''"]
      sample_gates msg
    by (simp add: requested_round_samples fetch_def)
qed

text \<open>
  Claim C10. A round argument that starts with digits and goes on with other characters
  is read as the number its digits spell (\<open>std::stoi\<close> stops at the first character
  that is no digit); if that number is an \<open>int\<close> in \<open>{1 .. current - 1}\<close>, the list of
  that round is fetched and the argument is not rejected. The range error is raised
  exactly when \<open>std::stoi\<close> finds no number, finds one that no \<open>int\<close> holds, or finds
  one below 1 or at least \<open>current\<close>.
\<close>

theorem stoi_prefix_accepted:
  assumes "cmd = ''payouts'' \<or> cmd = ''snapshot''"
    and "\<not> fHelp" and "fDebug E \<or> IsSynced E" and "db_lock_free E" and "cache_lock_free E"
    and "number (GetCurrentRound E) = current" and "current \<noteq> 0"
    and "ds \<noteq> []" and "\<forall>c\<in>set ds. isdigit c" and "rest = [] \<or> \<not> isdigit (hd rest)"
  shows "stoi (ds @ rest) = (if decimal ds \<le> INT_MAX then Inr (decimal ds) else Inl out_of_range)
       \<and> (decimal ds \<le> INT_MAX \<and> 1 \<le> decimal ds \<and> decimal ds < current \<longrightarrow>
            fetch cmd (decimal ds) \<in> set (fst (smartrewards E [VSTR cmd, VSTR (ds @ rest)] fHelp))
            \<and> snd (smartrewards E [VSTR cmd, VSTR (ds @ rest)] fHelp) \<noteq> Inl (range_error current))
       \<and> (\<forall>s. (snd (smartrewards E [VSTR cmd, VSTR s] fHelp) = Inl (range_error current)) =
                (stoi s = Inl invalid_argument \<or> stoi s = Inl out_of_range \<or>
                 (\<exists>n. stoi s = Inr n \<and> (n < 1 \<or> current \<le> n))))"
proof -
  have n0: "number (GetCurrentRound E) \<noteq> 0" using assms by simp
  have st: "stoi (ds @ rest) = (if decimal ds \<le> INT_MAX then Inr (decimal ds) else Inl out_of_range)"
    by (rule stoi_digits[OF assms(8-10)])
  have rs: "(snd (smartrewards E [VSTR cmd, VSTR s] fHelp) = Inl (range_error current)) =
                (stoi s = Inl invalid_argument \<or> stoi s = Inl out_of_range \<or>
                 (\<exists>n. stoi s = Inr n \<and> (n < 1 \<or> current \<le> n)))" for s
    using round_cmd_result[OF assms(1-5) n0, of "VSTR s"] requested_round_stoi[of s current] assms(6)
    by simp
  have acc: "fetch cmd (decimal ds) \<in> set (fst (smartrewards E [VSTR cmd, VSTR (ds @ rest)] fHelp))
            \<and> snd (smartrewards E [VSTR cmd, VSTR (ds @ rest)] fHelp) \<noteq> Inl (range_error current)"
    if "decimal ds \<le> INT_MAX" "1 \<le> decimal ds" "decimal ds < current"
  proof -
    have rr: "requested_round (VSTR (ds @ rest)) = Some (decimal ds)"
      using st that by (simp add: requested_round_def)
    show ?thesis
      using round_cmd_trace[OF assms(1-5) n0, of "VSTR (ds @ rest)"]
            round_cmd_result[OF assms(1-5) n0, of "VSTR (ds @ rest)"] rr that assms(6)
      by simp
  qed
  show ?thesis using st rs acc by blast
qed

theorem stoi_prefix_accepted_witness:
  "(''payouts'' = ''payouts'' \<or> ''payouts'' = ''snapshot'') \<and> \<not> False
   \<and> (fDebug sample_env \<or> IsSynced sample_env) \<and> db_lock_free sample_env
   \<and> cache_lock_free sample_env \<and> number (GetCurrentRound sample_env) = 5 \<and> (5::int) \<noteq> 0
   \<and> isdigit (CHR ''3'') \<and> \<not> isdigit (CHR ''a'') \<and> decimal ''3'' = 3
   \<and> stoi ''3abc'' = Inr 3
   \<and> CallGetRewardPayouts 3 \<in> set (fst (smartrewards sample_env [VSTR ''payouts'', VSTR ''3abc''] False))
   \<and> snd (smartrewards sample_env [VSTR ''payouts'', VSTR ''3abc''] False) \<noteq> Inl (range_error 5)"
proof -
  have h: "''3'' \<noteq> []" "\<forall>c\<in>set ''3''. isdigit c" "''abc'' = [] \<or> \<not> isdigit (hd ''abc'')"
    by (simp_all add: isdigit_def)
  have d: "decimal ''3'' = 3"
    by (simp add: decimal_def digit_value_def)
  have c: "isdigit (CHR ''3'')" "\<not> isdigit (CHR ''a'')"
    by (simp_all add: isdigit_def)
  show ?thesis
    using stoi_prefix_accepted[of "''payouts''" False sample_env 5 "''3''" "''abc''", OF _ _ sample_gates _ h]
      sample_gates c d
    by (simp add: fetch_def INT_MAX_def)
qed

subsection \<open>A current round with number 0\<close>

text \<open>
  \<open>current\<close>, \<open>payouts\<close> and \<open>snapshot\<close> stop with "No active reward round available
  yet." when the number of the current round is 0, whatever its other fields hold.
\<close>

lemma not_ready_short_circuit:
  assumes "cmd \<in> {''current'', ''payouts'', ''snapshot''}"
    and "\<not> fHelp" and "fDebug E \<or> IsSynced E" and "db_lock_free E" and "cache_lock_free E"
    and "number (GetCurrentRound E) = 0"
  shows "smartrewards E (VSTR cmd # args) fHelp =
           ((if fDebug E then [] else [CallIsSynced]) @
            [TryLock cs_rewardsdb True, TryLock cs_rewardscache True, CallGetCurrentRound,
             Unlock cs_rewardscache, Unlock cs_rewardsdb],
            Inl not_ready)"
  using assms
  by (auto simp: smartrewards_def cmd_current_def cmd_payouts_def cmd_snapshot_def
                 check_synced_def get_str_def rpc_defs)

text \<open>
  Claim C3. \<open>check\<close> reads the current round as well, but does not test its number:
  with a current round of number 0, a valid address and an entry for it, the command
  returns the object of the entry instead of failing.
\<close>

theorem check_ignores_round_zero:
  "number (GetCurrentRound (sample_env\<lparr>GetCurrentRound := sample_round 0 0 0 0 0\<rparr>)) = 0
   \<and> smartrewards (sample_env\<lparr>GetCurrentRound := sample_round 0 0 0 0 0\<rparr>)
        [VSTR ''check'', VSTR sample_address] False =
       ([CallIsSynced, TryLock cs_rewardsdb True, TryLock cs_rewardscache True,
         CallGetCurrentRound, CallGetRewardEntry \<lparr>IsValid = True, ToString = sample_address\<rparr>,
         Unlock cs_rewardscache, Unlock cs_rewardsdb],
        Inr (VOBJ
          [(''address'', VSTR sample_address),
           (''balance'', VREAL 1500),
           (''balance_eligible'', VREAL 0),
           (''is_smartnode'', VBOOL False),
           (''activated'', VBOOL True),
           (''eligible'', VBOOL False)]))"
  by (simp add: smartrewards_def cmd_check_def check_synced_def get_str_def rpc_defs
                sample_env_def sample_round_def sample_entry_def format_def Let_def
                signed_divide_int_def signed_modulo_int_def)

subsection \<open>Negative differences\<close>

text \<open>
  In the history both differences are replaced by 0 when they are not positive, before
  the amount is formatted.
\<close>

lemma history_clamps:
  "roundObj E r = Inr obj \<Longrightarrow>
     find_value obj ''eligible_addresses'' = Some (VINT (max 0 (eligibleEntries r - disqualifiedEntries r)))
     \<and> find_value obj ''eligible_smart'' =
         Some (VREAL (format E (max 0 (eligibleSmart r - disqualifiedSmart r))))"
  by (auto simp: roundObj_def find_value_def max_def split: sum.splits)

text \<open>
  Claim C4. \<open>current\<close> pushes the same two differences as they are: for a current round
  with 10 eligible and 12 disqualified entries, and a disqualified amount that exceeds
  the eligible one by 2.5 coins, it returns \<open>eligible_addresses = -2\<close> and
  \<open>eligible_smart = -2.5\<close>.
\<close>

theorem current_emits_negative:
  "eligibleEntries (GetCurrentRound sample_env) = 10
   \<and> disqualifiedEntries (GetCurrentRound sample_env) = 12
   \<and> eligibleSmart (GetCurrentRound sample_env) - disqualifiedSmart (GetCurrentRound sample_env) = - 250000000
   \<and> (\<exists>obj. snd (smartrewards sample_env [VSTR ''current''] False) = Inr obj
        \<and> find_value obj ''eligible_addresses'' = Some (VINT (- 2))
        \<and> find_value obj ''eligible_smart'' = Some (VREAL (- (5 / 2))))"
  by (simp add: smartrewards_def cmd_current_def check_synced_def get_str_def rpc_defs
                sample_env_def sample_round_def format_def Let_def find_value_def
                signed_divide_int_def signed_modulo_int_def)

subsection \<open>The eligibility rule of \<open>check\<close>\<close>

text \<open>
  Claim C5. When \<open>check\<close> returns the object of an entry, its \<open>eligible\<close> field is
  \<open>balanceEligible > 0\<close> if the number of the current round is below
  \<open>nRewardsFirst_1_3_Round\<close>, and the entry's \<open>IsEligible()\<close> otherwise.
\<close>

theorem check_eligible_rule:
  assumes "\<not> fHelp" and "fDebug E \<or> IsSynced E" and "db_lock_free E" and "cache_lock_free E"
    and "IsValid (Legacy E a)" and "GetRewardEntry E (Legacy E a) = Some e"
  shows "\<exists>obj. snd (smartrewards E [VSTR ''check'', VSTR a] fHelp) = Inr obj \<and>
           find_value obj ''eligible'' =
             Some (VBOOL (if number (GetCurrentRound E) < nRewardsFirst_1_3_Round E
                          then balanceEligible e > 0 else IsEligible e))"
  using assms
  by (auto simp: smartrewards_def cmd_check_def check_synced_def rpc_defs get_str_def
                 find_value_def Let_def)

text \<open>
  An entry with \<open>balanceEligible = 0\<close> and \<open>IsEligible()\<close> true, in round 5: with the
  threshold at 6 the field is false, with the threshold at 5 it is true.
\<close>

theorem check_eligible_rule_witness:
  "number (GetCurrentRound (sample_env\<lparr>nRewardsFirst_1_3_Round := 6\<rparr>)) = 6 - 1
   \<and> number (GetCurrentRound (sample_env\<lparr>nRewardsFirst_1_3_Round := 5\<rparr>)) = 5
   \<and> \<not> (balanceEligible sample_entry > 0) \<and> IsEligible sample_entry
   \<and> (\<exists>obj. snd (smartrewards (sample_env\<lparr>nRewardsFirst_1_3_Round := 6\<rparr>)
                  [VSTR ''check'', VSTR sample_address] False) = Inr obj
            \<and> find_value obj ''eligible'' = Some (VBOOL False))
   \<and> (\<exists>obj. snd (smartrewards (sample_env\<lparr>nRewardsFirst_1_3_Round := 5\<rparr>)
                  [VSTR ''check'', VSTR sample_address] False) = Inr obj
            \<and> find_value obj ''eligible'' = Some (VBOOL True))"
proof -
  have g: "fDebug (sample_env\<lparr>nRewardsFirst_1_3_Round := t\<rparr>) \<or> IsSynced (sample_env\<lparr>nRewardsFirst_1_3_Round := t\<rparr>)"
     "db_lock_free (sample_env\<lparr>nRewardsFirst_1_3_Round := t\<rparr>)"
     "cache_lock_free (sample_env\<lparr>nRewardsFirst_1_3_Round := t\<rparr>)"
     "IsValid (Legacy (sample_env\<lparr>nRewardsFirst_1_3_Round := t\<rparr>) sample_address)"
     "GetRewardEntry (sample_env\<lparr>nRewardsFirst_1_3_Round := t\<rparr>)
        (Legacy (sample_env\<lparr>nRewardsFirst_1_3_Round := t\<rparr>) sample_address) = Some sample_entry"
     "number (GetCurrentRound (sample_env\<lparr>nRewardsFirst_1_3_Round := t\<rparr>)) = 5"
     "nRewardsFirst_1_3_Round (sample_env\<lparr>nRewardsFirst_1_3_Round := t\<rparr>) = t" for t
    by (simp_all add: sample_env_def sample_round_def)
  have e: "\<not> (balanceEligible sample_entry > 0)" "IsEligible sample_entry"
    by (simp_all add: sample_entry_def)
  show ?thesis
    using check_eligible_rule[of False "sample_env\<lparr>nRewardsFirst_1_3_Round := 6\<rparr>" sample_address sample_entry,
            OF _ g(1-5)]
          check_eligible_rule[of False "sample_env\<lparr>nRewardsFirst_1_3_Round := 5\<rparr>" sample_address sample_entry,
            OF _ g(1-5)]
          e
    by (simp add: g(6,7) sample_gates)
qed

subsection \<open>The payout schedule of a round of the history\<close>

text \<open>
  Claim C7. Whenever \<open>history\<close> returns a value, the value is an array with one object
  per round of the map, in the order of the map, and each object has the key
  \<open>payouts\<close>. For a round with payees its value holds \<open>firstBlock\<close>, the end height
  plus \<open>nRewardsPayoutStartDelay\<close>, \<open>totalBlocks\<close>, \<open>lastBlock\<close>, \<open>totalPayees\<close>,
  \<open>blockPayees\<close>, \<open>lastBlockPayees\<close>, the remainder of the payee count by
  \<open>nBlockPayees\<close> (the C++ remainder, which is \<open>mod\<close> on a non-negative count), and
  \<open>blockInterval\<close>; for a round without payees it holds the one key \<open>None\<close> with an
  explanation. The command does return a value when it runs with both locks on a
  non-empty map in which no round with payees has \<open>nBlockPayees = 0\<close> (where the
  remainder is undefined).
\<close>

theorem history_payout_schedule:
  "(\<forall>v. snd (smartrewards E (VSTR ''history'' # args) fHelp) = Inr v \<longrightarrow>
      (\<exists>objs. v = VARR objs
          \<and> length objs = length (GetRewardRounds E)
          \<and> (\<forall>i < length objs.
                let r = snd (GetRewardRounds E ! i) in
                find_value (objs ! i) ''payouts'' =
                  Some (if GetPayeeCount r \<noteq> 0
                        then VOBJ
                          [(''firstBlock'', VINT (endBlockHeight r + nRewardsPayoutStartDelay E)),
                           (''totalBlocks'', VINT (GetRewardBlocks r)),
                           (''lastBlock'', VINT (GetLastRoundBlock r)),
                           (''totalPayees'', VINT (GetPayeeCount r)),
                           (''blockPayees'', VINT (nBlockPayees r)),
                           (''lastBlockPayees'', VINT (GetPayeeCount r smod nBlockPayees r)),
                           (''blockInterval'', VINT (nBlockInterval r))]
                        else VOBJ [(''None'', VSTR ''No payees were eligible for this round'')])
                \<and> (0 \<le> GetPayeeCount r \<and> 0 < nBlockPayees r \<longrightarrow>
                     GetPayeeCount r smod nBlockPayees r = GetPayeeCount r mod nBlockPayees r))))
   \<and> (\<not> fHelp \<and> (fDebug E \<or> IsSynced E) \<and> db_lock_free E \<and> cache_lock_free E
        \<and> GetRewardRounds E \<noteq> []
        \<and> (\<forall>it\<in>set (GetRewardRounds E). GetPayeeCount (snd it) \<noteq> 0 \<longrightarrow> nBlockPayees (snd it) \<noteq> 0)
      \<longrightarrow> (\<exists>v. snd (smartrewards E (VSTR ''history'' # args) fHelp) = Inr v))"
proof (intro conjI allI impI)
  fix v
  assume v: "snd (smartrewards E (VSTR ''history'' # args) fHelp) = Inr v"
  from history_returns[OF v] have g: "\<not> fHelp" "fDebug E \<or> IsSynced E" "db_lock_free E"
    "cache_lock_free E" "GetRewardRounds E \<noteq> []"
    "\<forall>it\<in>set (GetRewardRounds E). GetPayeeCount (snd it) \<noteq> 0 \<longrightarrow> nBlockPayees (snd it) \<noteq> 0"
    by simp_all
  from history_schedule[OF g, of args] v
  show "\<exists>objs. v = VARR objs
          \<and> length objs = length (GetRewardRounds E)
          \<and> (\<forall>i < length objs.
                let r = snd (GetRewardRounds E ! i) in
                find_value (objs ! i) ''payouts'' =
                  Some (if GetPayeeCount r \<noteq> 0
                        then VOBJ
                          [(''firstBlock'', VINT (endBlockHeight r + nRewardsPayoutStartDelay E)),
                           (''totalBlocks'', VINT (GetRewardBlocks r)),
                           (''lastBlock'', VINT (GetLastRoundBlock r)),
                           (''totalPayees'', VINT (GetPayeeCount r)),
                           (''blockPayees'', VINT (nBlockPayees r)),
                           (''lastBlockPayees'', VINT (GetPayeeCount r smod nBlockPayees r)),
                           (''blockInterval'', VINT (nBlockInterval r))]
                        else VOBJ [(''None'', VSTR ''No payees were eligible for this round'')])
                \<and> (0 \<le> GetPayeeCount r \<and> 0 < nBlockPayees r \<longrightarrow>
                     GetPayeeCount r smod nBlockPayees r = GetPayeeCount r mod nBlockPayees r))"
    by auto
next
  assume "\<not> fHelp \<and> (fDebug E \<or> IsSynced E) \<and> db_lock_free E \<and> cache_lock_free E
        \<and> GetRewardRounds E \<noteq> []
        \<and> (\<forall>it\<in>set (GetRewardRounds E). GetPayeeCount (snd it) \<noteq> 0 \<longrightarrow> nBlockPayees (snd it) \<noteq> 0)"
  then have g: "\<not> fHelp" "fDebug E \<or> IsSynced E" "db_lock_free E"
    "cache_lock_free E" "GetRewardRounds E \<noteq> []"
    "\<forall>it\<in>set (GetRewardRounds E). GetPayeeCount (snd it) \<noteq> 0 \<longrightarrow> nBlockPayees (snd it) \<noteq> 0"
    by simp_all
  from history_schedule[OF g, of args]
  show "\<exists>v. snd (smartrewards E (VSTR ''history'' # args) fHelp) = Inr v" by blast
qed

text \<open>
  The sample history has a round with 90 payees, 40 to a block, and a round without
  payees.
\<close>

theorem history_payout_schedule_witness:
  "\<not> False \<and> (fDebug sample_env \<or> IsSynced sample_env) \<and> db_lock_free sample_env
   \<and> cache_lock_free sample_env \<and> length (GetRewardRounds sample_env) = 2
   \<and> GetPayeeCount (snd (GetRewardRounds sample_env ! 0)) = 90
   \<and> nBlockPayees (snd (GetRewardRounds sample_env ! 0)) = 40
   \<and> GetPayeeCount (snd (GetRewardRounds sample_env ! 1)) = 0
   \<and> (\<exists>objs. snd (smartrewards sample_env [VSTR ''history''] False) = Inr (VARR objs)
          \<and> length objs = 2
          \<and> find_value (objs ! 0) ''payouts'' =
              Some (VOBJ [(''firstBlock'', VINT 4199), (''totalBlocks'', VINT 3),
                          (''lastBlock'', VINT 4205), (''totalPayees'', VINT 90),
                          (''blockPayees'', VINT 40), (''lastBlockPayees'', VINT 10),
                          (''blockInterval'', VINT 2)])
          \<and> find_value (objs ! 1) ''payouts'' =
              Some (VOBJ [(''None'', VSTR ''No payees were eligible for this round'')]))"
proof -
  have rounds: "GetRewardRounds sample_env =
      [(3, sample_round 3 100 10 5000 100), (4, sample_round 4 12 12 700 700)]"
    "nRewardsPayoutStartDelay sample_env = 200"
    by (simp_all add: sample_env_def)
  have h: "GetRewardRounds sample_env \<noteq> []"
    "\<forall>it\<in>set (GetRewardRounds sample_env). GetPayeeCount (snd it) \<noteq> 0 \<longrightarrow> nBlockPayees (snd it) \<noteq> 0"
    by (simp_all add: rounds sample_round_def)
  note sched = history_payout_schedule[of sample_env "[]" False]
  from sched sample_gates(1-3) h
  obtain v where v: "snd (smartrewards sample_env [VSTR ''history''] False) = Inr v"
    by blast
  with sched obtain objs where
    res: "v = VARR objs" and
    len: "length objs = length (GetRewardRounds sample_env)" and
    each: "\<forall>i < length objs.
                let r = snd (GetRewardRounds sample_env ! i) in
                find_value (objs ! i) ''payouts'' =
                  Some (if GetPayeeCount r \<noteq> 0
                        then VOBJ
                          [(''firstBlock'', VINT (endBlockHeight r + nRewardsPayoutStartDelay sample_env)),
                           (''totalBlocks'', VINT (GetRewardBlocks r)),
                           (''lastBlock'', VINT (GetLastRoundBlock r)),
                           (''totalPayees'', VINT (GetPayeeCount r)),
                           (''blockPayees'', VINT (nBlockPayees r)),
                           (''lastBlockPayees'', VINT (GetPayeeCount r smod nBlockPayees r)),
                           (''blockInterval'', VINT (nBlockInterval r))]
                        else VOBJ [(''None'', VSTR ''No payees were eligible for this round'')])
                \<and> (0 \<le> GetPayeeCount r \<and> 0 < nBlockPayees r \<longrightarrow>
                     GetPayeeCount r smod nBlockPayees r = GetPayeeCount r mod nBlockPayees r)"
    by blast
  have len2: "length objs = 2" using len by (simp add: rounds)
  have i0: "(0::nat) < length objs" and i1: "(1::nat) < length objs" using len2 by simp_all
  have p0: "find_value (objs ! 0) ''payouts'' =
              Some (VOBJ [(''firstBlock'', VINT 4199), (''totalBlocks'', VINT 3),
                          (''lastBlock'', VINT 4205), (''totalPayees'', VINT 90),
                          (''blockPayees'', VINT 40), (''lastBlockPayees'', VINT 10),
                          (''blockInterval'', VINT 2)])"
    using each[rule_format, OF i0] by (simp add: rounds sample_round_def Let_def)
  have p1: "find_value (objs ! 1) ''payouts'' =
              Some (VOBJ [(''None'', VSTR ''No payees were eligible for this round'')])"
    using each[rule_format, OF i1] by (simp add: rounds sample_round_def Let_def)
  have r: "length (GetRewardRounds sample_env) = 2"
    "GetPayeeCount (snd (GetRewardRounds sample_env ! 0)) = 90"
    "nBlockPayees (snd (GetRewardRounds sample_env ! 0)) = 40"
    "GetPayeeCount (snd (GetRewardRounds sample_env ! 1)) = 0"
    by (simp_all add: rounds sample_round_def)
  show ?thesis
    using sample_gates r v res len2 p0 p1 by simp
qed

subsection \<open>The amount formatter\<close>

text \<open>
  Claim C8. For a positive \<open>COIN\<close>, a rounding \<open>fl\<close> that maps no non-negative real
  below 0 and an amount \<open>a \<ge> 0\<close>: \<open>format a\<close> is the sum, in double arithmetic, of the
  integer part of \<open>a\<close> and of its fractional part divided by \<open>COIN\<close>, where the two
  parts split \<open>a\<close> into whole coins and a rest below \<open>COIN\<close>; \<open>format a\<close> is not
  negative; and in exact arithmetic it is \<open>a / COIN\<close>. \<open>format\<close> has no error outcome:
  the lambda throws nothing and divides by the constant \<open>COIN\<close> only.
\<close>

theorem format_parts:
  assumes "0 < COIN E" and "0 \<le> a" and "\<forall>x. 0 \<le> x \<longrightarrow> 0 \<le> fl E x"
  shows "format E a =
           fl E (fl E (of_int (integerPart (COIN E) a))
                 + fl E (fl E (of_int (fractionalPart (COIN E) a)) / fl E (of_int (COIN E))))
         \<and> 0 \<le> format E a
         \<and> integerPart (COIN E) a * COIN E + fractionalPart (COIN E) a = a
         \<and> 0 \<le> integerPart (COIN E) a
         \<and> 0 \<le> fractionalPart (COIN E) a \<and> fractionalPart (COIN E) a < COIN E
         \<and> ((\<forall>x. fl E x = x) \<longrightarrow> format E a = of_int a / of_int (COIN E))"
proof -
  have parts: "a sdiv COIN E = integerPart (COIN E) a" "a smod COIN E = fractionalPart (COIN E) a"
    using assms by (simp_all add: sdiv_nonneg smod_nonneg integerPart_def fractionalPart_def)
  have ip: "0 \<le> integerPart (COIN E) a"
    using assms by (simp add: integerPart_def pos_imp_zdiv_nonneg_iff)
  have fp: "0 \<le> fractionalPart (COIN E) a" "fractionalPart (COIN E) a < COIN E"
    using assms by (simp_all add: fractionalPart_def)
  have eq: "format E a =
           fl E (fl E (of_int (integerPart (COIN E) a))
                 + fl E (fl E (of_int (fractionalPart (COIN E) a)) / fl E (of_int (COIN E))))"
    by (simp add: format_def parts)
  have nn: "0 \<le> fl E x" if "0 \<le> x" for x using assms(3) that by blast
  have "0 \<le> fl E (of_int (fractionalPart (COIN E) a)) / fl E (of_int (COIN E))"
    using fp assms(1) by (intro divide_nonneg_nonneg nn) simp_all
  then have pos: "0 \<le> format E a"
    unfolding eq using ip by (intro nn add_nonneg_nonneg) simp_all
  have split: "integerPart (COIN E) a * COIN E + fractionalPart (COIN E) a = a"
    by (simp add: integerPart_def fractionalPart_def)
  have exact: "format E a = of_int a / of_int (COIN E)" if id: "\<forall>x. fl E x = x"
  proof -
    have "format E a = of_int (integerPart (COIN E) a) + of_int (fractionalPart (COIN E) a) / of_int (COIN E)"
      unfolding eq using id by simp
    also have "\<dots> = (of_int (integerPart (COIN E) a * COIN E + fractionalPart (COIN E) a)) / of_int (COIN E)"
      using assms(1) by (simp add: field_simps)
    finally show ?thesis by (simp only: split)
  qed
  show ?thesis using eq pos split ip fp exact by blast
qed

theorem format_parts_witness:
  "0 < COIN sample_env \<and> (0::int) \<le> 123456789 \<and> fl sample_env = (\<lambda>x. x)
   \<and> integerPart (COIN sample_env) 123456789 = 1
   \<and> fractionalPart (COIN sample_env) 123456789 = 23456789
   \<and> format sample_env 123456789 = 1 + 23456789 / 100000000
   \<and> 0 \<le> format sample_env 123456789"
proof -
  have h: "0 < COIN sample_env" "(0::int) \<le> 123456789" "\<forall>x. 0 \<le> x \<longrightarrow> 0 \<le> fl sample_env x"
    by (simp_all add: sample_env_def)
  have i: "fl sample_env = (\<lambda>x. x)" "COIN sample_env = 100000000"
    by (simp_all add: sample_env_def)
  have p: "integerPart 100000000 123456789 = 1" "fractionalPart 100000000 123456789 = 23456789"
    by (simp_all add: integerPart_def fractionalPart_def)
  show ?thesis
    using format_parts[OF h] h i p by simp
qed

subsection \<open>The term-rewards listing\<close>

text \<open>
  \<open>termrewards\<close> also fails when the read has not failed: with \<open>cs_rewardscache\<close>
  held by another thread it throws the busy error and never calls
  \<open>GetTermRewardsEntries\<close>, which would have returned an entry.
\<close>

theorem termrewards_busy_counterexample:
  "GetTermRewardsEntries (sample_env\<lparr>cache_lock_free := False\<rparr>) = Some [sample_term]
   \<and> termrewards (sample_env\<lparr>cache_lock_free := False\<rparr>) [] False =
       ([CallIsSynced, TryLock cs_rewardsdb True, TryLock cs_rewardscache False, Unlock cs_rewardsdb],
        Inl busy)"
  by (simp add: termrewards_def check_synced_def rpc_defs sample_env_def)

text \<open>
  Claim C9, amended. \<open>termrewards\<close> fails exactly when help is requested, the node is
  not synced outside debug mode, one of the two locks is not free, or
  \<open>GetTermRewardsEntries\<close> reports failure. When none of the first four holds, it
  fails exactly when the read fails: a map that was read gives the array of one object
  per entry in the order of iteration, and an empty map gives the empty array.
\<close>

theorem termrewards_failure_causes:
  "((\<exists>e. snd (termrewards E params fHelp) = Inl e) =
      (fHelp \<or> (\<not> fDebug E \<and> \<not> IsSynced E) \<or> \<not> db_lock_free E \<or> \<not> cache_lock_free E
       \<or> GetTermRewardsEntries E = None))
   \<and> (\<forall>es. \<not> fHelp \<and> (fDebug E \<or> IsSynced E) \<and> db_lock_free E \<and> cache_lock_free E
          \<and> GetTermRewardsEntries E = Some es \<longrightarrow>
          snd (termrewards E params fHelp) = Inr (VARR (map (term_obj E) es)))
   \<and> (\<not> fHelp \<and> (fDebug E \<or> IsSynced E) \<and> db_lock_free E \<and> cache_lock_free E
          \<and> GetTermRewardsEntries E = Some [] \<longrightarrow>
          snd (termrewards E params fHelp) = Inr (VARR []))"
  by (auto simp: termrewards_def check_synced_def rpc_defs term_loop_eq split: option.splits)

theorem termrewards_failure_causes_witness:
  "\<not> False \<and> (fDebug sample_env \<or> IsSynced sample_env) \<and> db_lock_free sample_env
   \<and> cache_lock_free sample_env
   \<and> snd (termrewards (sample_env\<lparr>GetTermRewardsEntries := Some []\<rparr>) [] False) = Inr (VARR [])
   \<and> snd (termrewards sample_env [] False) = Inr (VARR [term_obj sample_env sample_term])
   \<and> (\<exists>e. snd (termrewards (sample_env\<lparr>GetTermRewardsEntries := None\<rparr>) [] False) = Inl e)
   \<and> (\<exists>e. snd (termrewards (sample_env\<lparr>db_lock_free := False\<rparr>) [] False) = Inl e)"
proof -
  have g: "fDebug (sample_env\<lparr>GetTermRewardsEntries := r\<rparr>) \<or> IsSynced (sample_env\<lparr>GetTermRewardsEntries := r\<rparr>)"
     "db_lock_free (sample_env\<lparr>GetTermRewardsEntries := r\<rparr>)"
     "cache_lock_free (sample_env\<lparr>GetTermRewardsEntries := r\<rparr>)" for r
    by (simp_all add: sample_env_def)
  have s: "GetTermRewardsEntries sample_env = Some [sample_term]"
    by (simp add: sample_env_def)
  show ?thesis
    using termrewards_failure_causes[of "sample_env\<lparr>GetTermRewardsEntries := Some []\<rparr>" "[]" False]
      termrewards_failure_causes[of "sample_env\<lparr>GetTermRewardsEntries := None\<rparr>" "[]" False]
      termrewards_failure_causes[of "sample_env\<lparr>db_lock_free := False\<rparr>" "[]" False]
      termrewards_failure_causes[of sample_env "[]" False]
      sample_gates g s
    by simp
qed

end
